theory Spec2Isabelle
  imports Complex_Main
begin

section \<open>A scalar neural network with manual backpropagation\<close>

text \<open>
  The repository holds two notebooks with the same classes: \<^verbatim>\<open>src/unnamed/part_000\<close>
  and \<^verbatim>\<open>src/NNPrimer.ipynb\<close>. The definitions below follow \<^verbatim>\<open>part_000\<close>;
  the places where \<^verbatim>\<open>NNPrimer.ipynb\<close> differs are modelled separately and carry the
  prefix \<open>NNPrimer_\<close>.

  In this first reading a Python float is a real of the specification's data model
  (\<open>real scalar\<close>); it carries the claims about the formulas the methods compute, about
  what they leave unchanged and about the order of the layers. Rounding, the float
  range and the saturation of \<^verbatim>\<open>np.tanh\<close> at \<open>\<plusminus>1.0\<close> belong to the
  double-precision reading that follows it.

  An instance attribute that is assigned only by \<^verbatim>\<open>forward\<close> is an \<open>option\<close> field:
  \<open>None\<close> while the attribute does not exist yet. Reading it then raises Python's
  \<^verbatim>\<open>AttributeError\<close>, which is the only exception of the code over the reals.
  Every method takes the object and returns it updated, next to its result; a method
  that can raise returns \<open>Inl\<close> of the error in place of the result, and the object as
  the exception leaves it.
\<close>

datatype error = AttributeError

subsection \<open>OurLinear\<close>

text \<open>
  \<^verbatim>\<open>self.weight\<close>, \<^verbatim>\<open>self.bias\<close> and the cached input \<^verbatim>\<open>self.x\<close>
  (field \<open>cache_x\<close>). \<^verbatim>\<open>__init__\<close> draws weight and bias with
  \<^verbatim>\<open>random.uniform(-1, 1)\<close>; the two draws are parameters of the model.
\<close>

record OurLinear =
  weight :: real
  bias :: real
  cache_x :: "real option"

definition OurLinear_init :: "real \<Rightarrow> real \<Rightarrow> OurLinear" where
  "OurLinear_init w b = \<lparr>weight = w, bias = b, cache_x = None\<rparr>"

definition OurLinear_forward :: "OurLinear \<Rightarrow> real \<Rightarrow> real \<times> OurLinear" where
  "OurLinear_forward self x =
     (let self = self\<lparr>cache_x := Some x\<rparr>;
          out = x * weight self + bias self
      in (out, self))"

definition OurLinear_backward ::
    "OurLinear \<Rightarrow> real \<Rightarrow> real \<Rightarrow> (error + real) \<times> OurLinear" where
  "OurLinear_backward self grad_out lr =
     (case cache_x self of
        None \<Rightarrow> (Inl AttributeError, self)
      | Some x \<Rightarrow>
          (let grad_w = grad_out * x;
               grad_b = grad_out;
               grad_in = grad_out * weight self;
               self = self\<lparr>weight := weight self - lr * grad_w\<rparr>;
               self = self\<lparr>bias := bias self - lr * grad_b\<rparr>
           in (Inr grad_in, self)))"

subsection \<open>OurTanh\<close>

text \<open>The class has no constructor; its only attribute is the cached output \<^verbatim>\<open>self.y\<close>.\<close>

record OurTanh =
  cache_y :: "real option"

definition OurTanh_init :: OurTanh where
  "OurTanh_init = \<lparr>cache_y = None\<rparr>"

definition OurTanh_forward :: "OurTanh \<Rightarrow> real \<Rightarrow> real \<times> OurTanh" where
  "OurTanh_forward self x =
     (let y = tanh x;
          self = self\<lparr>cache_y := Some y\<rparr>
      in (y, self))"

definition OurTanh_backward ::
    "OurTanh \<Rightarrow> real \<Rightarrow> real \<Rightarrow> (error + real) \<times> OurTanh" where
  "OurTanh_backward self grad_out lr =
     (case cache_y self of
        None \<Rightarrow> (Inl AttributeError, self)
      | Some y \<Rightarrow>
          (let grad_in = grad_out * (1 - y\<^sup>2)
           in (Inr grad_in, self)))"

subsection \<open>OurMSELoss\<close>

text \<open>
  In \<^verbatim>\<open>part_000\<close> the loss caches \<^verbatim>\<open>self.z = y - x\<close>, where \<open>x\<close> is the prediction
  and \<open>y\<close> the target. Its forward squares the residual, which can leave the float
  range: forward is modelled in the double-precision reading only.
\<close>

record OurMSELoss =
  cache_z :: "real option"

definition OurMSELoss_init :: OurMSELoss where
  "OurMSELoss_init = \<lparr>cache_z = None\<rparr>"

definition OurMSELoss_backward :: "OurMSELoss \<Rightarrow> (error + real) \<times> OurMSELoss" where
  "OurMSELoss_backward self =
     (case cache_z self of
        None \<Rightarrow> (Inl AttributeError, self)
      | Some z \<Rightarrow>
          (let grad_in = - 2 * z
           in (Inr grad_in, self)))"

text \<open>
  In \<^verbatim>\<open>NNPrimer.ipynb\<close> the loss caches prediction and target themselves
  (\<^verbatim>\<open>self.x\<close>, \<^verbatim>\<open>self.y\<close>). \<^verbatim>\<open>backward\<close> reads \<^verbatim>\<open>self.y\<close> first.
\<close>

record NNPrimer_OurMSELoss =
  loss_x :: "real option"
  loss_y :: "real option"

definition NNPrimer_OurMSELoss_init :: NNPrimer_OurMSELoss where
  "NNPrimer_OurMSELoss_init = \<lparr>loss_x = None, loss_y = None\<rparr>"

definition NNPrimer_OurMSELoss_backward ::
    "NNPrimer_OurMSELoss \<Rightarrow> (error + real) \<times> NNPrimer_OurMSELoss" where
  "NNPrimer_OurMSELoss_backward self =
     (case loss_y self of
        None \<Rightarrow> (Inl AttributeError, self)
      | Some y \<Rightarrow>
          (case loss_x self of
             None \<Rightarrow> (Inl AttributeError, self)
           | Some x \<Rightarrow>
               (let grad_in = - 2 * (y - x)
                in (Inr grad_in, self))))"

subsection \<open>Layers and OurDNN\<close>

text \<open>
  \<^verbatim>\<open>self.layers\<close> is a Python list holding objects of the two classes; the method
  call \<^verbatim>\<open>layer.forward(x)\<close> dispatches on the object's class.
\<close>

datatype layer = Linear OurLinear | Tanh OurTanh

fun layer_forward :: "layer \<Rightarrow> real \<Rightarrow> real \<times> layer" where
  "layer_forward (Linear l) x = (case OurLinear_forward l x of (out, l') \<Rightarrow> (out, Linear l'))"
| "layer_forward (Tanh t) x = (case OurTanh_forward t x of (out, t') \<Rightarrow> (out, Tanh t'))"

fun layer_backward :: "layer \<Rightarrow> real \<Rightarrow> real \<Rightarrow> (error + real) \<times> layer" where
  "layer_backward (Linear l) grad_out lr =
     (case OurLinear_backward l grad_out lr of (r, l') \<Rightarrow> (r, Linear l'))"
| "layer_backward (Tanh t) grad_out lr =
     (case OurTanh_backward t grad_out lr of (r, t') \<Rightarrow> (r, Tanh t'))"

record OurDNN =
  layers :: "layer list"

text \<open>
  \<^verbatim>\<open>OurDNN.__init__(n)\<close> appends \<open>n\<close> times an \<^verbatim>\<open>OurLinear()\<close> and an
  \<^verbatim>\<open>OurTanh()\<close>. The random draws of the linear layers come from \<open>rnd\<close>, the
  sequence of results of \<^verbatim>\<open>random.uniform(-1, 1)\<close>: the layer built in round \<open>i\<close>
  takes draws \<open>2 * i\<close> and \<open>2 * i + 1\<close>.
\<close>

fun init_loop :: "nat \<Rightarrow> nat \<Rightarrow> (nat \<Rightarrow> real) \<Rightarrow> layer list" where
  "init_loop i 0 rnd = []"
| "init_loop i (Suc k) rnd =
     Linear (OurLinear_init (rnd (2 * i)) (rnd (2 * i + 1))) # Tanh OurTanh_init
       # init_loop (Suc i) k rnd"

definition OurDNN_init :: "nat \<Rightarrow> (nat \<Rightarrow> real) \<Rightarrow> OurDNN" where
  "OurDNN_init n rnd = \<lparr>layers = init_loop 0 n rnd\<rparr>"

text \<open>
  \<^verbatim>\<open>for layer in ls: x = layer.forward(x)\<close>: the loop over a list of layers, returning
  the last output and the layers as the calls left them, in the order of \<open>ls\<close>.
\<close>

fun forward_loop :: "layer list \<Rightarrow> real \<Rightarrow> real \<times> layer list" where
  "forward_loop [] x = (x, [])"
| "forward_loop (l # ls) x =
     (case layer_forward l x of
        (x', l') \<Rightarrow> (case forward_loop ls x' of (out, ls') \<Rightarrow> (out, l' # ls')))"

definition OurDNN_forward :: "OurDNN \<Rightarrow> real \<Rightarrow> real \<times> OurDNN" where
  "OurDNN_forward self x =
     (case forward_loop (layers self) x of (out, ls') \<Rightarrow> (out, self\<lparr>layers := ls'\<rparr>))"

text \<open>
  \<^verbatim>\<open>for layer in ls: grad_out = layer.backward(grad_out, lr)\<close>: the loop visits \<open>ls\<close>
  from its head. An exception leaves the loop at once: the layers visited so far keep
  their updates and the rest are untouched.
\<close>

fun backward_loop :: "layer list \<Rightarrow> real \<Rightarrow> real \<Rightarrow> (error + real) \<times> layer list" where
  "backward_loop [] grad_out lr = (Inr grad_out, [])"
| "backward_loop (l # ls) grad_out lr =
     (case layer_backward l grad_out lr of
        (Inl e, l') \<Rightarrow> (Inl e, l' # ls)
      | (Inr grad_in, l') \<Rightarrow>
          (case backward_loop ls grad_in lr of (r, ls') \<Rightarrow> (r, l' # ls')))"

text \<open>
  \<^verbatim>\<open>part_000\<close>: the loop runs over \<^verbatim>\<open>reversed(self.layers)\<close>. The list itself keeps
  its order; only the objects in it are updated.
\<close>

definition OurDNN_backward :: "OurDNN \<Rightarrow> real \<Rightarrow> real \<Rightarrow> (error + real) \<times> OurDNN" where
  "OurDNN_backward self grad_out lr =
     (case backward_loop (rev (layers self)) grad_out lr of
        (r, ls') \<Rightarrow> (r, self\<lparr>layers := rev ls'\<rparr>))"

text \<open>
  \<^verbatim>\<open>NNPrimer.ipynb\<close>: the loop runs over \<^verbatim>\<open>self.layers\<close> itself. Its
  \<^verbatim>\<open>OurLinear\<close> names the parameters \<^verbatim>\<open>w\<close> and \<^verbatim>\<open>b\<close> and writes the updates
  as \<^verbatim>\<open>self.w = self.w - lr * grad_w\<close>; its \<^verbatim>\<open>OurTanh\<close>, \<^verbatim>\<open>OurDNN.__init__\<close> and
  \<^verbatim>\<open>OurDNN.forward\<close> are those of \<^verbatim>\<open>part_000\<close>, so the layer model is shared.
\<close>

definition NNPrimer_OurDNN_backward ::
    "OurDNN \<Rightarrow> real \<Rightarrow> real \<Rightarrow> (error + real) \<times> OurDNN" where
  "NNPrimer_OurDNN_backward self grad_out lr =
     (case backward_loop (layers self) grad_out lr of
        (r, ls') \<Rightarrow> (r, self\<lparr>layers := ls'\<rparr>))"

subsection \<open>get_params\<close>

text \<open>
  \<^verbatim>\<open>get_params(dnn)\<close> collects, in network order, the weight and the bias of every
  \<^verbatim>\<open>OurLinear\<close> layer into the lists \<^verbatim>\<open>params['ws']\<close> and \<^verbatim>\<open>params['bs']\<close>. The
  \<^verbatim>\<open>nn.Linear\<close> branch concerns the PyTorch network and never fires on an
  \<^verbatim>\<open>OurDNN\<close>.
\<close>

record params =
  ws :: "real list"
  bs :: "real list"

fun get_params_loop :: "layer list \<Rightarrow> params \<Rightarrow> params" where
  "get_params_loop [] p = p"
| "get_params_loop (Linear l # ls) p =
     get_params_loop ls (p\<lparr>ws := ws p @ [weight l], bs := bs p @ [bias l]\<rparr>)"
| "get_params_loop (Tanh t # ls) p = get_params_loop ls p"

definition get_params :: "OurDNN \<Rightarrow> params" where
  "get_params dnn = get_params_loop (layers dnn) \<lparr>ws = [], bs = []\<rparr>"

section \<open>The double-precision reading\<close>

text \<open>
  Python's \<^verbatim>\<open>float\<close> and NumPy's \<^verbatim>\<open>float64\<close> are IEEE 754 binary64 numbers. Three
  properties of the classes depend on that: the value of a concrete computation (0.1 is
  not a double), the range (Python raises \<^verbatim>\<open>OverflowError\<close> when \<^verbatim>\<open>**\<close> leaves it)
  and the saturation of \<^verbatim>\<open>np.tanh\<close>. For these the classes are modelled a second time,
  over binary64; the definitions carry the suffix \<open>_f\<close>.
\<close>

subsection \<open>Binary64 values and rounding\<close>

text \<open>
  A double is a finite value, an infinity or a NaN. The finite value is kept as the
  real number it denotes; the two zeros are one value (the code never divides, so no
  result depends on the sign of a zero).
\<close>

datatype double = Fin real | PInf | NInf | NaN

text \<open>Rounding to the nearest integer, a tie going to the even one.\<close>

definition round_even :: "real \<Rightarrow> int" where
  "round_even r =
     (let f = \<lfloor>r\<rfloor>; d = r - of_int f
      in if d < 1 / 2 then f
         else if 1 / 2 < d then f + 1
         else if even f then f else f + 1)"

text \<open>
  The distance between neighbouring doubles at \<open>x\<close>: \<open>2 powr - 1074\<close> below the
  smallest normal number \<open>2 powr - 1022\<close>, and \<open>2 powr (e - 52)\<close> where
  \<open>2 powr e \<le> \<bar>x\<bar> < 2 powr (e + 1)\<close> (a significand of 53 bits).
\<close>

definition quantum :: "real \<Rightarrow> real" where
  "quantum x =
     (if \<bar>x\<bar> < 2 powr (- 1022) then 2 powr (- 1074)
      else 2 powr of_int (\<lfloor>log 2 \<bar>x\<bar>\<rfloor> - 52))"

text \<open>Round to nearest, ties to even, with unbounded exponent.\<close>

definition round_real :: "real \<Rightarrow> real" where
  "round_real x = sgn x * (of_int (round_even (\<bar>x\<bar> / quantum x)) * quantum x)"

text \<open>The largest finite double, \<^verbatim>\<open>sys.float_info.max\<close>.\<close>

definition DBL_MAX :: real where
  "DBL_MAX = (2 - 2 powr (- 52)) * 2 powr 1023"

text \<open>
  The double that an exact result \<open>x\<close> is delivered as: its rounding, or an infinity
  when the rounding is beyond the largest finite double. A decimal literal of the
  source denotes \<open>rd\<close> of its value.
\<close>

definition rd :: "real \<Rightarrow> double" where
  "rd x =
     (let r = round_real x
      in if DBL_MAX < r then PInf else if r < - DBL_MAX then NInf else Fin r)"

subsection \<open>Arithmetic\<close>

text \<open>
  \<^verbatim>\<open>-\<close> (unary), \<^verbatim>\<open>+\<close>, \<^verbatim>\<open>-\<close> and \<^verbatim>\<open>*\<close> on doubles: the exact result rounded, and
  the IEEE rules for infinities and NaN. None of them raises, in Python or in NumPy.
\<close>

fun dneg :: "double \<Rightarrow> double" where
  "dneg (Fin x) = Fin (- x)"
| "dneg PInf = NInf"
| "dneg NInf = PInf"
| "dneg NaN = NaN"

fun dadd :: "double \<Rightarrow> double \<Rightarrow> double" where
  "dadd (Fin x) (Fin y) = rd (x + y)"
| "dadd NaN b = NaN"
| "dadd a NaN = NaN"
| "dadd PInf NInf = NaN"
| "dadd NInf PInf = NaN"
| "dadd PInf b = PInf"
| "dadd a PInf = PInf"
| "dadd NInf b = NInf"
| "dadd a NInf = NInf"

definition dsub :: "double \<Rightarrow> double \<Rightarrow> double" where
  "dsub a b = dadd a (dneg b)"

fun dmul :: "double \<Rightarrow> double \<Rightarrow> double" where
  "dmul (Fin x) (Fin y) = rd (x * y)"
| "dmul NaN b = NaN"
| "dmul a NaN = NaN"
| "dmul (Fin x) PInf = (if x = 0 then NaN else if 0 < x then PInf else NInf)"
| "dmul (Fin x) NInf = (if x = 0 then NaN else if 0 < x then NInf else PInf)"
| "dmul PInf (Fin y) = (if y = 0 then NaN else if 0 < y then PInf else NInf)"
| "dmul NInf (Fin y) = (if y = 0 then NaN else if 0 < y then NInf else PInf)"
| "dmul PInf PInf = PInf"
| "dmul PInf NInf = NInf"
| "dmul NInf PInf = NInf"
| "dmul NInf NInf = PInf"

text \<open>
  The exceptions of the double-precision reading: the missing attribute, and the
  \<^verbatim>\<open>OverflowError\<close> of Python's \<^verbatim>\<open>float.__pow__\<close>.
\<close>

datatype float_error = AttributeError_f | OverflowError_f


fun np_pow2 :: "double \<Rightarrow> double" where
  "np_pow2 (Fin x) = rd (x * x)"
| "np_pow2 PInf = PInf"
| "np_pow2 NInf = PInf"
| "np_pow2 NaN = NaN"

fun np_tanh :: "double \<Rightarrow> double" where
  "np_tanh (Fin x) = rd (tanh x)"
| "np_tanh PInf = Fin 1"
| "np_tanh NInf = Fin (- 1)"
| "np_tanh NaN = NaN"





subsection \<open>The classes over binary64\<close>

text \<open>
  \<^verbatim>\<open>OurLinear\<close>: \<^verbatim>\<open>x * self.weight + self.bias\<close> is a multiplication and an addition,
  each rounded; \<^verbatim>\<open>self.weight -= lr * grad_w\<close> a multiplication and a subtraction.
  The three operators behave alike on both classes of scalar.
\<close>

record OurLinear_f =
  weight_f :: double
  bias_f :: double
  cache_x_f :: "double option"

definition OurLinear_f_forward :: "OurLinear_f \<Rightarrow> double \<Rightarrow> double \<times> OurLinear_f" where
  "OurLinear_f_forward self x =
     (let self = self\<lparr>cache_x_f := Some x\<rparr>;
          out = dadd (dmul x (weight_f self)) (bias_f self)
      in (out, self))"

definition OurLinear_f_backward ::
    "OurLinear_f \<Rightarrow> double \<Rightarrow> double \<Rightarrow> (float_error + double) \<times> OurLinear_f" where
  "OurLinear_f_backward self grad_out lr =
     (case cache_x_f self of
        None \<Rightarrow> (Inl AttributeError_f, self)
      | Some x \<Rightarrow>
          (let grad_w = dmul grad_out x;
               grad_b = grad_out;
               grad_in = dmul grad_out (weight_f self);
               self = self\<lparr>weight_f := dsub (weight_f self) (dmul lr grad_w)\<rparr>;
               self = self\<lparr>bias_f := dsub (bias_f self) (dmul lr grad_b)\<rparr>
           in (Inr grad_in, self)))"

text \<open>
  \<^verbatim>\<open>OurTanh\<close>: \<^verbatim>\<open>np.tanh\<close> returns a NumPy scalar whatever it is given, so
  \<^verbatim>\<open>self.y**2\<close> is NumPy's power.
\<close>

record OurTanh_f =
  cache_y_f :: "double option"

definition OurTanh_f_init :: OurTanh_f where
  "OurTanh_f_init = \<lparr>cache_y_f = None\<rparr>"

definition OurTanh_f_forward :: "OurTanh_f \<Rightarrow> double \<Rightarrow> double \<times> OurTanh_f" where
  "OurTanh_f_forward self x =
     (let y = np_tanh x;
          self = self\<lparr>cache_y_f := Some y\<rparr>
      in (y, self))"

definition OurTanh_f_backward ::
    "OurTanh_f \<Rightarrow> double \<Rightarrow> double \<Rightarrow> (float_error + double) \<times> OurTanh_f" where
  "OurTanh_f_backward self grad_out lr =
     (case cache_y_f self of
        None \<Rightarrow> (Inl AttributeError_f, self)
      | Some y \<Rightarrow>
          (let grad_in = dmul grad_out (dsub (Fin 1) (np_pow2 y))
           in (Inr grad_in, self)))"









section \<open>Tanh layer\<close>

text \<open>
  C4. The tanh layer's forward returns \<open>tanh x\<close> and caches it; a backward after it
  returns \<open>grad_out * (1 - y\<^sup>2)\<close> for the cached output \<open>y\<close>, whatever the learning
  rate, and leaves the layer as it was: there is no parameter to update.
\<close>

theorem OurTanh_forward_then_backward:
  "OurTanh_forward self x = (tanh x, self\<lparr>cache_y := Some (tanh x)\<rparr>)
   \<and> OurTanh_backward (self\<lparr>cache_y := Some y\<rparr>) grad_out lr =
       (Inr (grad_out * (1 - y\<^sup>2)), self\<lparr>cache_y := Some y\<rparr>)
   \<and> OurTanh_backward (snd (OurTanh_forward self x)) grad_out lr =
       (Inr (grad_out * (1 - (tanh x)\<^sup>2)), snd (OurTanh_forward self x))
   \<and> OurTanh_backward s grad_out lr = OurTanh_backward s grad_out lr'
   \<and> snd (OurTanh_backward s grad_out lr) = s"
  by (simp add: OurTanh_forward_def OurTanh_backward_def Let_def split: option.split)

section \<open>Use before forward\<close>

text \<open>
  C5. Backward on a freshly constructed linear layer, tanh layer or loss, before any
  forward has created the cached attribute, raises (Python's \<^verbatim>\<open>AttributeError\<close>)
  and returns no value; the object is left as constructed.
\<close>

theorem backward_before_forward_raises:
  "OurLinear_backward (OurLinear_init w b) grad_out lr = (Inl AttributeError, OurLinear_init w b)
   \<and> OurTanh_backward OurTanh_init grad_out lr = (Inl AttributeError, OurTanh_init)
   \<and> OurMSELoss_backward OurMSELoss_init = (Inl AttributeError, OurMSELoss_init)
   \<and> NNPrimer_OurMSELoss_backward NNPrimer_OurMSELoss_init =
       (Inl AttributeError, NNPrimer_OurMSELoss_init)"
  by (simp add: OurLinear_backward_def OurLinear_init_def OurTanh_backward_def OurTanh_init_def
      OurMSELoss_backward_def OurMSELoss_init_def
      NNPrimer_OurMSELoss_backward_def NNPrimer_OurMSELoss_init_def)

section \<open>Forward passes\<close>

text \<open>
  C6. For every layer in any state and every input, a second forward on the same input
  returns the value of the first and leaves the layer as the first left it.
\<close>

theorem layer_forward_twice:
  "(let (y1, l1) = layer_forward l x;
        (y2, l2) = layer_forward l1 x
    in y2 = y1 \<and> l2 = l1)"
  by (cases l) (simp_all add: OurLinear_forward_def OurTanh_forward_def Let_def)

lemma get_params_loop_forward_loop:
  "get_params_loop (snd (forward_loop ls x)) p = get_params_loop ls p"
proof (induction ls arbitrary: x p)
  case Nil
  show ?case by simp
next
  case (Cons l ls)
  show ?case
  proof (cases l)
    case (Linear a)
    then show ?thesis
      using Cons.IH by (simp add: OurLinear_forward_def Let_def split_beta)
  next
    case (Tanh t)
    then show ?thesis
      using Cons.IH by (simp add: OurTanh_forward_def Let_def split_beta)
  qed
qed

text \<open>
  C7. Forward changes no learnable parameter: a linear layer's forward changes only the
  cached input, weight and bias staying as they were, and the network's forward leaves
  the parameters that \<open>get_params\<close> reads from its layers unchanged.
\<close>

theorem forward_keeps_parameters:
  "snd (OurLinear_forward self x) = self\<lparr>cache_x := Some x\<rparr>
   \<and> weight (snd (OurLinear_forward self x)) = weight self
   \<and> bias (snd (OurLinear_forward self x)) = bias self
   \<and> get_params (snd (OurDNN_forward net x)) = get_params net"
  using get_params_loop_forward_loop [of "layers net" x "\<lparr>ws = [], bs = []\<rparr>"]
  by (simp add: OurLinear_forward_def Let_def get_params_def OurDNN_forward_def split_beta)

section \<open>The network without layers\<close>

text \<open>
  C9. A network constructed with \<open>n = 0\<close> has no layers: its forward returns the
  input, its backward returns \<open>grad_out\<close>, for every learning rate, and neither changes
  the network. This holds for the backward of both notebooks.
\<close>

theorem OurDNN_no_layers_identity:
  "layers (OurDNN_init 0 rnd) = []
   \<and> OurDNN_forward (OurDNN_init 0 rnd) x = (x, OurDNN_init 0 rnd)
   \<and> OurDNN_backward (OurDNN_init 0 rnd) grad_out lr = (Inr grad_out, OurDNN_init 0 rnd)
   \<and> NNPrimer_OurDNN_backward (OurDNN_init 0 rnd) grad_out lr = (Inr grad_out, OurDNN_init 0 rnd)"
  by (simp add: OurDNN_init_def OurDNN_forward_def OurDNN_backward_def NNPrimer_OurDNN_backward_def)

section \<open>Backward through the network\<close>

text \<open>
  The backward of \<^verbatim>\<open>part_000\<close> on a network whose last layer is \<open>l\<close> runs \<open>l\<close>
  first, on the incoming gradient, and then the network before \<open>l\<close> on the gradient
  that \<open>l\<close> returned; an exception in \<open>l\<close> leaves the other layers untouched. With
  the empty network this determines the function: every layer is visited once, last
  layer first.
\<close>

lemma OurDNN_backward_last_layer_first:
  "OurDNN_backward \<lparr>layers = ls @ [l]\<rparr> grad_out lr =
     (case layer_backward l grad_out lr of
        (Inl e, l') \<Rightarrow> (Inl e, \<lparr>layers = ls @ [l']\<rparr>)
      | (Inr grad_in, l') \<Rightarrow>
          (case OurDNN_backward \<lparr>layers = ls\<rparr> grad_in lr of
             (r, net') \<Rightarrow> (r, \<lparr>layers = layers net' @ [l']\<rparr>)))"
  by (simp add: OurDNN_backward_def split: prod.split sum.split)

lemma backward_loop_length:
  "length (snd (backward_loop ls grad_out lr)) = length ls"
proof (induction ls arbitrary: grad_out)
  case Nil
  show ?case by simp
next
  case (Cons l ls)
  obtain r l' where lb: "layer_backward l grad_out lr = (r, l')"
    by (cases "layer_backward l grad_out lr")
  show ?case
  proof (cases r)
    case (Inl e)
    with lb show ?thesis by simp
  next
    case (Inr grad_in)
    with lb Cons.IH [of grad_in] show ?thesis by (simp add: split_beta)
  qed
qed

lemma OurDNN_backward_length:
  "length (layers (snd (OurDNN_backward net grad_out lr))) = length (layers net)"
  using backward_loop_length [of "rev (layers net)" grad_out lr]
  by (simp add: OurDNN_backward_def split_beta)

text \<open>
  The backward of \<^verbatim>\<open>NNPrimer.ipynb\<close> runs the first layer first and hands its
  gradient to the layers after it.
\<close>

lemma NNPrimer_OurDNN_backward_first_layer_first:
  "NNPrimer_OurDNN_backward \<lparr>layers = l # ls\<rparr> grad_out lr =
     (case layer_backward l grad_out lr of
        (Inl e, l') \<Rightarrow> (Inl e, \<lparr>layers = l' # ls\<rparr>)
      | (Inr grad_in, l') \<Rightarrow>
          (case NNPrimer_OurDNN_backward \<lparr>layers = ls\<rparr> grad_in lr of
             (r, net') \<Rightarrow> (r, \<lparr>layers = l' # layers net'\<rparr>)))"
  by (simp add: NNPrimer_OurDNN_backward_def split: prod.split sum.split)

text \<open>
  C1. The claim: backward applies each layer's backward once, last layer first, each
  layer receiving the gradient returned by the layer after it. Evaluated here on the
  network of one linear layer (weight 0.5, bias -0.4) and one tanh layer, after
  forward on 1.0, with \<open>grad_out\<close> 1.0 and learning rate 0.1: the backward of
  \<^verbatim>\<open>NNPrimer.ipynb\<close> updates the linear layer with the gradient 1.0 that entered the
  network (weight 0.4, bias -0.5), where the backward of \<^verbatim>\<open>part_000\<close> updates it
  with the gradient \<open>1 - (tanh 0.1)\<^sup>2\<close> returned by the tanh layer.
\<close>

theorem NNPrimer_backward_order_evaluation:
  "(let net0 = OurDNN_init 1 (\<lambda>i. if i = 0 then 0.5 else - 0.4);
        (out, net1) = OurDNN_forward net0 1.0;
        (r, net2) = NNPrimer_OurDNN_backward net1 1.0 0.1;
        (r', net2') = OurDNN_backward net1 1.0 0.1
    in out = tanh 0.1
       \<and> r = Inr (0.5 * (1 - (tanh 0.1)\<^sup>2))
       \<and> get_params net2 = \<lparr>ws = [0.4], bs = [- 0.5]\<rparr>
       \<and> r' = Inr ((1 - (tanh 0.1)\<^sup>2) * 0.5)
       \<and> get_params net2' = \<lparr>ws = [0.5 - 0.1 * (1 - (tanh 0.1)\<^sup>2)],
                               bs = [- 0.4 - 0.1 * (1 - (tanh 0.1)\<^sup>2)]\<rparr>
       \<and> get_params net2 \<noteq> get_params net2')"
proof -
  define q :: real where "q = (tanh 0.1)\<^sup>2"
  have qpos: "0 < q"
    unfolding q_def by simp
  have "(0.4::real) < 0.5 - 0.1 * (1 - q)"
    using qpos by (simp add: field_simps)
  then have "\<lparr>ws = [0.4], bs = [- 0.5]\<rparr>
      \<noteq> \<lparr>ws = [0.5 - 0.1 * (1 - q)], bs = [- 0.4 - 0.1 * (1 - q)]\<rparr>"
    by (simp del: divide_less_eq_numeral1 less_divide_eq_numeral1)
  then have ne: "\<lparr>ws = [0.4], bs = [- 0.5]\<rparr>
      \<noteq> \<lparr>ws = [0.5 - 0.1 * (1 - (tanh 0.1)\<^sup>2)],
           bs = [- 0.4 - 0.1 * (1 - (tanh 0.1)\<^sup>2)]\<rparr>"
    unfolding q_def .
  let ?net0 = "OurDNN_init 1 (\<lambda>i. if i = 0 then 0.5 else - 0.4)"
  let ?net1 = "\<lparr>layers = [Linear \<lparr>weight = 0.5, bias = - 0.4, cache_x = Some 1.0\<rparr>,
                            Tanh \<lparr>cache_y = Some (tanh 0.1)\<rparr>]\<rparr>"
  have fw: "OurDNN_forward ?net0 1.0 = (tanh 0.1, ?net1)"
    by (simp add: OurDNN_init_def OurLinear_init_def OurTanh_init_def OurDNN_forward_def
        OurLinear_forward_def OurTanh_forward_def Let_def)
  obtain r net2 where b1: "NNPrimer_OurDNN_backward ?net1 1.0 0.1 = (r, net2)"
    by (cases "NNPrimer_OurDNN_backward ?net1 1.0 0.1")
  obtain r' net2' where b2: "OurDNN_backward ?net1 1.0 0.1 = (r', net2')"
    by (cases "OurDNN_backward ?net1 1.0 0.1")
  have r: "r = Inr (0.5 * (1 - (tanh 0.1)\<^sup>2))"
    and p: "get_params net2 = \<lparr>ws = [0.4], bs = [- 0.5]\<rparr>"
    using b1
    by (auto simp add: NNPrimer_OurDNN_backward_def OurLinear_backward_def
        OurTanh_backward_def get_params_def Let_def)
  have r': "r' = Inr ((1 - (tanh 0.1)\<^sup>2) * 0.5)"
    and p': "get_params net2' = \<lparr>ws = [0.5 - 0.1 * (1 - (tanh 0.1)\<^sup>2)],
                                   bs = [- 0.4 - 0.1 * (1 - (tanh 0.1)\<^sup>2)]\<rparr>"
    using b2
    by (auto simp add: OurDNN_backward_def OurLinear_backward_def
        OurTanh_backward_def get_params_def Let_def)
  show ?thesis
    unfolding Let_def fw b1 b2 prod.case r r' p p'
    using ne by (intro conjI refl)
qed

text \<open>
  C8. There is a network of two layers (one linear, one tanh), a forward pass and a
  \<open>grad_out\<close> on which running the layers' backward in construction order and in
  reverse order give different results: the returned gradients agree, the updated
  parameters do not.
\<close>

theorem backward_traversal_orders_differ:
  "\<exists>net x grad_out lr.
     2 \<le> length (layers net)
     \<and> net = OurDNN_init 1 (\<lambda>i. if i = 0 then 1 else 0)
     \<and> fst (OurDNN_backward (snd (OurDNN_forward net x)) grad_out lr) = Inr (1 - (tanh 1)\<^sup>2)
     \<and> fst (NNPrimer_OurDNN_backward (snd (OurDNN_forward net x)) grad_out lr)
         = Inr (1 - (tanh 1)\<^sup>2)
     \<and> get_params (snd (OurDNN_backward (snd (OurDNN_forward net x)) grad_out lr))
         = \<lparr>ws = [(tanh 1)\<^sup>2], bs = [(tanh 1)\<^sup>2 - 1]\<rparr>
     \<and> get_params (snd (NNPrimer_OurDNN_backward (snd (OurDNN_forward net x)) grad_out lr))
         = \<lparr>ws = [0], bs = [- 1]\<rparr>
     \<and> OurDNN_backward (snd (OurDNN_forward net x)) grad_out lr
         \<noteq> NNPrimer_OurDNN_backward (snd (OurDNN_forward net x)) grad_out lr"
proof -
  have nz: "(tanh (1::real))\<^sup>2 \<noteq> 0"
    by simp
  show ?thesis
    apply (rule exI [of _ "OurDNN_init 1 (\<lambda>i. if i = 0 then 1 else 0)"])
    apply (rule exI [of _ 1])
    apply (rule exI [of _ 1])
    apply (rule exI [of _ 1])
    using nz
    apply (simp add: OurDNN_init_def OurLinear_init_def OurTanh_init_def OurDNN_forward_def
      OurLinear_forward_def OurTanh_forward_def NNPrimer_OurDNN_backward_def OurDNN_backward_def
      OurLinear_backward_def OurTanh_backward_def get_params_def Let_def)
    done
qed

section \<open>Rounding to binary64\<close>

text \<open>Rounding to an integer is monotone and leaves integers alone.\<close>

lemma round_even_of_int: "round_even (of_int k) = k"
  by (simp add: round_even_def)

lemma round_even_0: "round_even 0 = 0"
  using round_even_of_int [of 0] by simp

lemma round_even_mono:
  assumes "r \<le> s"
  shows "round_even r \<le> round_even s"
proof (cases "\<lfloor>r\<rfloor> = \<lfloor>s\<rfloor>")
  case True
  then show ?thesis
    using assms by (auto simp add: round_even_def Let_def)
next
  case False
  with assms have lt: "\<lfloor>r\<rfloor> < \<lfloor>s\<rfloor>"
    using floor_mono [of r s] by linarith
  have "round_even r \<le> \<lfloor>r\<rfloor> + 1"
    by (simp add: round_even_def Let_def)
  moreover have "\<lfloor>s\<rfloor> \<le> round_even s"
    by (simp add: round_even_def Let_def)
  ultimately show ?thesis
    using lt by linarith
qed

lemma round_even_le_int: "r \<le> of_int k \<Longrightarrow> round_even r \<le> k"
  using round_even_mono [of r "of_int k"] by (simp add: round_even_of_int)

lemma round_even_ge_int: "of_int k \<le> r \<Longrightarrow> k \<le> round_even r"
  using round_even_mono [of "of_int k" r] by (simp add: round_even_of_int)

lemma round_even_near:
  assumes "\<bar>r - of_int k\<bar> < 1 / 2"
  shows "round_even r = k"
proof (cases "of_int k \<le> r")
  case True
  then have "\<lfloor>r\<rfloor> = k"
    using assms by (intro floor_unique) (simp_all add: abs_less_iff)
  then show ?thesis
    using assms True by (simp add: round_even_def Let_def abs_less_iff)
next
  case False
  then have "\<lfloor>r\<rfloor> = k - 1"
    using assms by (intro floor_unique) (simp_all add: abs_less_iff)
  then show ?thesis
    using assms False by (simp add: round_even_def Let_def abs_less_iff)
qed

text \<open>The spacing, and the rounding on one grid: it never crosses a grid point.\<close>

lemma quantum_pos: "0 < quantum x"
  by (simp add: quantum_def)

lemma quantum_minus: "quantum (- x) = quantum x"
  by (simp add: quantum_def)

lemma quantum_eq:
  assumes "2 powr of_int e \<le> \<bar>x\<bar>" "\<bar>x\<bar> < 2 powr of_int (e + 1)" "- 1022 \<le> e"
  shows "quantum x = 2 powr of_int (e - 52)"
proof -
  have pos: "0 < \<bar>x\<bar>"
    using assms(1) powr_gt_zero [of 2 "of_int e"] by linarith
  have fl: "\<lfloor>log 2 \<bar>x\<bar>\<rfloor> = e"
    using assms(1,2) pos by (simp add: floor_log_eq_powr_iff)
  have "(2::real) powr (- 1022) \<le> 2 powr of_int e"
    using assms(3) by (intro powr_mono) simp_all
  then have "\<not> \<bar>x\<bar> < 2 powr (- 1022)"
    using assms(1) by linarith
  then show ?thesis
    using fl by (simp add: quantum_def)
qed

lemma quantum_subnormal: "\<bar>x\<bar> < 2 powr (- 1022) \<Longrightarrow> quantum x = 2 powr (- 1074)"
  by (simp add: quantum_def)

lemma grid_le:
  assumes "0 < q" "x \<le> of_int k * q"
  shows "of_int (round_even (x / q)) * q \<le> of_int k * q"
proof -
  have "x / q \<le> of_int k"
    using assms by (simp add: pos_divide_le_eq)
  then have "round_even (x / q) \<le> k"
    by (rule round_even_le_int)
  then have "(of_int (round_even (x / q)) :: real) \<le> of_int k"
    by simp
  then show ?thesis
    using assms(1) by (simp add: mult_right_mono)
qed

lemma grid_ge:
  assumes "0 < q" "of_int k * q \<le> x"
  shows "of_int k * q \<le> of_int (round_even (x / q)) * q"
proof -
  have "of_int k \<le> x / q"
    using assms by (simp add: pos_le_divide_eq)
  then have "k \<le> round_even (x / q)"
    by (rule round_even_ge_int)
  then have "(of_int k :: real) \<le> of_int (round_even (x / q))"
    by simp
  then show ?thesis
    using assms(1) by (simp add: mult_right_mono)
qed

text \<open>
  \<open>round_real\<close> is odd, keeps the sign, and stays within the binade of its argument,
  whose ends are grid points.
\<close>

lemma round_real_0: "round_real 0 = 0"
  by (simp add: round_real_def)

lemma round_real_minus: "round_real (- x) = - round_real x"
  by (simp add: round_real_def quantum_minus sgn_minus)

lemma round_real_nonneg: "0 \<le> x \<Longrightarrow> 0 \<le> round_real x"
proof -
  assume x: "0 \<le> x"
  have "0 \<le> round_even (\<bar>x\<bar> / quantum x)"
    using round_even_ge_int [of 0 "\<bar>x\<bar> / quantum x"] quantum_pos [of x] by simp
  then show ?thesis
    using x quantum_pos [of x] by (simp add: round_real_def sgn_if)
qed

lemma round_real_nonpos: "x \<le> 0 \<Longrightarrow> round_real x \<le> 0"
  using round_real_nonneg [of "- x"] by (simp add: round_real_minus)

lemma round_real_pos: "0 \<le> x \<Longrightarrow> round_real x = of_int (round_even (x / quantum x)) * quantum x"
  by (cases "x = 0") (simp_all add: round_real_def sgn_if round_even_0)

lemma binade_lower: "(2::real) powr of_int e = of_int (2 ^ 52) * 2 powr of_int (e - 52)"
proof -
  have "(2::real) powr 52 * 2 powr of_int (e - 52) = 2 powr (52 + of_int (e - 52))"
    by (rule powr_add [symmetric])
  also have "(52::real) + of_int (e - 52) = of_int e"
    by simp
  finally show ?thesis by simp
qed

lemma binade_upper: "(2::real) powr of_int (e + 1) = of_int (2 ^ 53) * 2 powr of_int (e - 52)"
proof -
  have "(2::real) powr 53 * 2 powr of_int (e - 52) = 2 powr (53 + of_int (e - 52))"
    by (rule powr_add [symmetric])
  also have "(53::real) + of_int (e - 52) = of_int (e + 1)"
    by simp
  finally show ?thesis by simp
qed

lemma subnormal_upper: "(2::real) powr (- 1022) = of_int (2 ^ 52) * 2 powr (- 1074)"
  using binade_lower [of "- 1022"] by simp

lemma round_real_normal:
  assumes "2 powr of_int e \<le> x" "x < 2 powr of_int (e + 1)" "- 1022 \<le> e"
  shows "round_real x = of_int (round_even (x / 2 powr of_int (e - 52))) * 2 powr of_int (e - 52)"
    and "2 powr of_int e \<le> round_real x"
    and "round_real x \<le> 2 powr of_int (e + 1)"
proof -
  have pos: "0 < x"
    using assms(1) powr_gt_zero [of 2 "of_int e"] by linarith
  have q: "quantum x = 2 powr of_int (e - 52)"
    using assms pos by (intro quantum_eq) simp_all
  show eq: "round_real x = of_int (round_even (x / 2 powr of_int (e - 52))) * 2 powr of_int (e - 52)"
    using pos q by (simp add: round_real_pos)
  have qpos: "(0::real) < 2 powr of_int (e - 52)"
    by simp
  show "2 powr of_int e \<le> round_real x"
    unfolding eq binade_lower [of e]
    using assms(1) by (intro grid_ge [OF qpos]) (simp only: binade_lower [of e, symmetric])
  show "round_real x \<le> 2 powr of_int (e + 1)"
    unfolding eq binade_upper [of e]
    using assms(2) by (intro grid_le [OF qpos]) (simp only: binade_upper [of e, symmetric])
qed

lemma round_real_subnormal:
  assumes "0 \<le> x" "x < 2 powr (- 1022)"
  shows "round_real x = of_int (round_even (x / 2 powr (- 1074))) * 2 powr (- 1074)"
    and "round_real x \<le> 2 powr (- 1022)"
proof -
  have q: "quantum x = 2 powr (- 1074)"
    using assms by (intro quantum_subnormal) simp
  show eq: "round_real x = of_int (round_even (x / 2 powr (- 1074))) * 2 powr (- 1074)"
    using assms(1) q by (simp add: round_real_pos)
  have qpos: "(0::real) < 2 powr (- 1074)"
    by simp
  show "round_real x \<le> 2 powr (- 1022)"
    unfolding eq subnormal_upper
    using assms(2) by (intro grid_le [OF qpos]) (simp only: subnormal_upper [symmetric])
qed

lemma normal_exponent:
  assumes "2 powr (- 1022) \<le> (x::real)"
  shows "\<exists>e. 2 powr of_int e \<le> x \<and> x < 2 powr of_int (e + 1) \<and> - 1022 \<le> e"
proof -
  have pos: "0 < x"
    using assms powr_gt_zero [of 2 "- 1022"] by linarith
  define e where "e = \<lfloor>log 2 x\<rfloor>"
  have b: "2 powr of_int e \<le> x \<and> x < 2 powr of_int (e + 1)"
    using floor_log_eq_powr_iff [of x 2 e] pos by (simp add: e_def)
  have "- 1022 \<le> log 2 x"
    using assms pos by (simp add: le_log_iff)
  then have "- 1022 \<le> e"
    unfolding e_def by (simp add: le_floor_iff)
  with b show ?thesis by blast
qed

text \<open>Rounding is monotone: first on the non-negative reals, then everywhere.\<close>

lemma round_real_mono_nonneg:
  assumes "0 \<le> x" "x \<le> y"
  shows "round_real x \<le> round_real y"
proof (cases "y < 2 powr (- 1022)")
  case True
  then have xs: "x < 2 powr (- 1022)"
    using assms by linarith
  have y0: "0 \<le> y" using assms by linarith
  have "round_even (x / 2 powr (- 1074)) \<le> round_even (y / 2 powr (- 1074))"
    using assms(2) by (intro round_even_mono) (simp add: divide_right_mono)
  then have "(of_int (round_even (x / 2 powr (- 1074))) :: real)
      \<le> of_int (round_even (y / 2 powr (- 1074)))"
    by simp
  then show ?thesis
    unfolding round_real_subnormal(1) [OF assms(1) xs] round_real_subnormal(1) [OF y0 True]
    by (simp add: mult_right_mono)
next
  case False
  then obtain ey where ey: "2 powr of_int ey \<le> y" "y < 2 powr of_int (ey + 1)" "- 1022 \<le> ey"
    using normal_exponent [of y] by auto
  show ?thesis
  proof (cases "x < 2 powr (- 1022)")
    case True
    have "round_real x \<le> 2 powr (- 1022)"
      using round_real_subnormal(2) [OF assms(1) True] .
    also have "\<dots> \<le> 2 powr of_int ey"
      using ey(3) by (intro powr_mono) simp_all
    also have "\<dots> \<le> round_real y"
      using round_real_normal(2) [OF ey] .
    finally show ?thesis .
  next
    case False
    then obtain ex where ex: "2 powr of_int ex \<le> x" "x < 2 powr of_int (ex + 1)" "- 1022 \<le> ex"
      using normal_exponent [of x] by auto
    have "2 powr of_int ex < (2::real) powr of_int (ey + 1)"
      using ex(1) assms(2) ey(2) by linarith
    then have le: "ex \<le> ey"
      by simp
    show ?thesis
    proof (cases "ex = ey")
      case True
      have "round_even (x / 2 powr of_int (ey - 52)) \<le> round_even (y / 2 powr of_int (ey - 52))"
        using assms(2) by (intro round_even_mono) (simp add: divide_right_mono)
      then have "(of_int (round_even (x / 2 powr of_int (ey - 52))) :: real)
          \<le> of_int (round_even (y / 2 powr of_int (ey - 52)))"
        by simp
      then show ?thesis
        unfolding round_real_normal(1) [OF ex] round_real_normal(1) [OF ey] True
        by (simp add: mult_right_mono)
    next
      case False
      with le have "ex + 1 \<le> ey" by simp
      have "round_real x \<le> 2 powr of_int (ex + 1)"
        using round_real_normal(3) [OF ex] .
      also have "\<dots> \<le> 2 powr of_int ey"
        using \<open>ex + 1 \<le> ey\<close> by (intro powr_mono) simp_all
      also have "\<dots> \<le> round_real y"
        using round_real_normal(2) [OF ey] .
      finally show ?thesis .
    qed
  qed
qed

lemma round_real_mono:
  assumes "x \<le> y"
  shows "round_real x \<le> round_real y"
proof (cases "0 \<le> x")
  case True
  then show ?thesis
    using assms by (rule round_real_mono_nonneg)
next
  case False
  show ?thesis
  proof (cases "0 \<le> y")
    case True
    have "round_real x \<le> 0"
      using False by (intro round_real_nonpos) simp
    also have "0 \<le> round_real y"
      using True by (rule round_real_nonneg)
    finally show ?thesis .
  next
    case False
    then have "round_real (- y) \<le> round_real (- x)"
      using assms by (intro round_real_mono_nonneg) simp_all
    then show ?thesis
      by (simp add: round_real_minus)
  qed
qed

text \<open>Evaluating the rounding: powers of two, the unit interval, the range.\<close>

lemma round_real_eval:
  assumes "2 powr of_int e \<le> x" "x < 2 powr of_int (e + 1)" "- 1022 \<le> e"
    and "round_even (x / 2 powr of_int (e - 52)) = k"
  shows "round_real x = of_int k * 2 powr of_int (e - 52)"
  unfolding round_real_normal(1) [OF assms(1,2,3)] assms(4) ..

lemma round_real_1: "round_real 1 = 1"
proof -
  have "(1::real) / 2 powr of_int (0 - 52) = of_int (2 ^ 52)"
    by (simp add: powr_neg_numeral)
  then have "round_even (1 / 2 powr of_int (0 - 52)) = 2 ^ 52"
    by (simp only: round_even_of_int)
  then have "round_real 1 = of_int (2 ^ 52) * 2 powr of_int (0 - 52)"
    by (intro round_real_eval) simp_all
  then show ?thesis
    by (simp add: powr_neg_numeral)
qed

lemma round_real_unit:
  assumes "- 1 \<le> x" "x \<le> 1"
  shows "- 1 \<le> round_real x" and "round_real x \<le> 1"
proof -
  show "round_real x \<le> 1"
    using round_real_mono [OF assms(2)] by (simp add: round_real_1)
  have "round_real (- 1) \<le> round_real x"
    using assms(1) by (rule round_real_mono)
  then show "- 1 \<le> round_real x"
    by (simp add: round_real_minus round_real_1)
qed


lemma DBL_MAX_ge_1: "1 \<le> DBL_MAX"
proof -
  have a: "(1::real) \<le> 2 - 2 powr (- 52)"
  proof -
    have "(2::real) powr (- 52) \<le> 2 powr 0"
      by (intro powr_mono) simp_all
    then show ?thesis by simp
  qed
  have b: "(1::real) \<le> 2 powr 1023"
  proof -
    have "(2::real) powr 0 \<le> 2 powr 1023"
      by (intro powr_mono) simp_all
    then show ?thesis by simp
  qed
  have "(1::real) * 1 \<le> (2 - 2 powr (- 52)) * 2 powr 1023"
    using a b by (intro mult_mono) simp_all
  then show ?thesis
    by (simp add: DBL_MAX_def)
qed



lemma rd_finite: "\<bar>round_real x\<bar> \<le> DBL_MAX \<Longrightarrow> rd x = Fin (round_real x)"
  unfolding rd_def Let_def by (auto simp add: abs_le_iff)

lemma rd_unit: "- 1 \<le> x \<Longrightarrow> x \<le> 1 \<Longrightarrow> rd x = Fin (round_real x)"
  using round_real_unit [of x] DBL_MAX_ge_1 by (intro rd_finite) simp

lemma rd_double: "rd g = Fin g \<Longrightarrow> round_real g = g \<and> \<bar>g\<bar> \<le> DBL_MAX"
  unfolding rd_def Let_def by (auto split: if_splits)

lemma rd_0: "rd 0 = Fin 0"
  using rd_unit [of 0] by (simp add: round_real_0)

lemma rd_1: "rd 1 = Fin 1"
  using rd_unit [of 1] by (simp add: round_real_1)

lemma rd_minus: "rd (- x) = dneg (rd x)"
  unfolding rd_def Let_def round_real_minus
  using DBL_MAX_ge_1 by (auto split: if_splits)

lemma rd_eval:
  assumes "2 powr of_int e \<le> x" "x < 2 powr of_int (e + 1)" "- 1022 \<le> e"
    and "round_even (x / 2 powr of_int (e - 52)) = k" and "x \<le> 1"
  shows "rd x = Fin (of_int k * 2 powr of_int (e - 52))"
proof -
  have "0 \<le> x"
    using assms(1) powr_ge_zero [of 2 "of_int e"] by linarith
  then have "rd x = Fin (round_real x)"
    using assms(5) by (intro rd_unit) simp_all
  then show ?thesis
    using round_real_eval [OF assms(1,2,3,4)] by simp
qed




section \<open>Linear layer in double precision\<close>

text \<open>
  The doubles of the literals \<^verbatim>\<open>0.5\<close>, \<^verbatim>\<open>0.4\<close> and \<^verbatim>\<open>0.1\<close>, and the roundings
  that forward and backward perform on them.
\<close>

lemma rd_half: "rd (1 / 2) = Fin (1 / 2)"
proof -
  have "round_even ((1 / 2) / 2 powr of_int (- 1 - 52)) = 2 ^ 52"
    by (simp add: powr_neg_numeral round_even_def)
  then have "rd (1 / 2) = Fin (of_int (2 ^ 52) * 2 powr of_int (- 1 - 52))"
    by (intro rd_eval) (simp_all add: powr_neg_numeral powr_minus)
  then show ?thesis
    by (simp add: powr_neg_numeral)
qed

lemma rd_two_fifths: "rd (2 / 5) = Fin (7205759403792794 / 2 ^ 54)"
proof -
  have "round_even ((2 / 5) / 2 powr of_int (- 2 - 52)) = 7205759403792794"
    by (simp add: powr_neg_numeral round_even_def)
  then have "rd (2 / 5) = Fin (of_int 7205759403792794 * 2 powr of_int (- 2 - 52))"
    by (intro rd_eval) (simp_all add: powr_neg_numeral)
  then show ?thesis
    by (simp add: powr_neg_numeral)
qed

lemma rd_tenth: "rd (1 / 10) = Fin (7205759403792794 / 2 ^ 56)"
proof -
  have "round_even ((1 / 10) / 2 powr of_int (- 4 - 52)) = 7205759403792794"
    by (simp add: powr_neg_numeral round_even_def)
  then have "rd (1 / 10) = Fin (of_int 7205759403792794 * 2 powr of_int (- 4 - 52))"
    by (intro rd_eval) (simp_all add: powr_neg_numeral)
  then show ?thesis
    by (simp add: powr_neg_numeral)
qed

lemma rd_forward_out: "rd (1 / 2 - 7205759403792794 / 2 ^ 54) = Fin (7205759403792792 / 2 ^ 56)"
proof -
  have "round_even ((1 / 2 - 7205759403792794 / 2 ^ 54) / 2 powr of_int (- 4 - 52))
      = 7205759403792792"
    by (simp add: powr_neg_numeral round_even_def)
  then have "rd (1 / 2 - 7205759403792794 / 2 ^ 54)
      = Fin (of_int 7205759403792792 * 2 powr of_int (- 4 - 52))"
    by (intro rd_eval) (simp_all add: powr_neg_numeral)
  then show ?thesis
    by (simp add: powr_neg_numeral)
qed

lemma rd_lr_exact: "rd (7205759403792794 / 2 ^ 56) = Fin (7205759403792794 / 2 ^ 56)"
proof -
  have "round_even ((7205759403792794 / 2 ^ 56) / 2 powr of_int (- 4 - 52)) = 7205759403792794"
    by (simp add: powr_neg_numeral round_even_def)
  then have "rd (7205759403792794 / 2 ^ 56)
      = Fin (of_int 7205759403792794 * 2 powr of_int (- 4 - 52))"
    by (intro rd_eval) (simp_all add: powr_neg_numeral)
  then show ?thesis
    by (simp add: powr_neg_numeral)
qed

lemma rd_new_weight: "rd (1 / 2 - 7205759403792794 / 2 ^ 56) = Fin (7205759403792794 / 2 ^ 54)"
proof -
  have "round_even ((1 / 2 - 7205759403792794 / 2 ^ 56) / 2 powr of_int (- 2 - 52))
      = 7205759403792794"
    by (simp add: powr_neg_numeral round_even_def)
  then have "rd (1 / 2 - 7205759403792794 / 2 ^ 56)
      = Fin (of_int 7205759403792794 * 2 powr of_int (- 2 - 52))"
    by (intro rd_eval) (simp_all add: powr_neg_numeral)
  then show ?thesis
    by (simp add: powr_neg_numeral)
qed

lemma rd_new_bias:
  "rd (- (7205759403792794 / 2 ^ 54) - 7205759403792794 / 2 ^ 56) = Fin (- (1 / 2))"
proof -
  have "round_even ((7205759403792794 / 2 ^ 54 + 7205759403792794 / 2 ^ 56)
      / 2 powr of_int (- 1 - 52)) = 2 ^ 52"
    by (simp add: powr_neg_numeral round_even_def)
  then have "rd (7205759403792794 / 2 ^ 54 + 7205759403792794 / 2 ^ 56)
      = Fin (of_int (2 ^ 52) * 2 powr of_int (- 1 - 52))"
    by (intro rd_eval) (simp_all add: powr_neg_numeral powr_minus)
  then have "rd (7205759403792794 / 2 ^ 54 + 7205759403792794 / 2 ^ 56) = Fin (1 / 2)"
    by (simp add: powr_neg_numeral)
  then have "rd (- (7205759403792794 / 2 ^ 54 + 7205759403792794 / 2 ^ 56)) = Fin (- (1 / 2))"
    by (simp only: rd_minus dneg.simps)
  then show ?thesis
    by (simp only: minus_add_distrib diff_conv_add_uminus)
qed

text \<open>
  C2, as the specification states it, at its own input: with weight 0.5, bias -0.4 and
  input 1.0 forward is claimed to return 0.1. It returns the double
  \<open>7205759403792792 / 2 ^ 56\<close> (printed \<^verbatim>\<open>0.09999999999999998\<close>), which is not the double
  of \<^verbatim>\<open>0.1\<close>, \<open>7205759403792794 / 2 ^ 56\<close>.
\<close>

theorem OurLinear_f_forward_not_tenth:
  "fst (OurLinear_f_forward \<lparr>weight_f = rd 0.5, bias_f = dneg (rd 0.4), cache_x_f = None\<rparr>
          (rd 1.0))
     = Fin (7205759403792792 / 2 ^ 56)
   \<and> rd 0.1 = Fin (7205759403792794 / 2 ^ 56)
   \<and> fst (OurLinear_f_forward \<lparr>weight_f = rd 0.5, bias_f = dneg (rd 0.4), cache_x_f = None\<rparr>
          (rd 1.0))
     \<noteq> rd 0.1"
proof -
  have h: "rd 0.5 = Fin (1 / 2)" "rd 0.4 = Fin (7205759403792794 / 2 ^ 54)"
      "rd 1.0 = Fin 1" "rd 0.1 = Fin (7205759403792794 / 2 ^ 56)"
    using rd_half rd_two_fifths rd_1 rd_tenth by simp_all
  have out: "fst (OurLinear_f_forward
      \<lparr>weight_f = Fin (1 / 2), bias_f = dneg (Fin (7205759403792794 / 2 ^ 54)),
         cache_x_f = None\<rparr> (Fin 1))
      = Fin (7205759403792792 / 2 ^ 56)"
    using rd_half rd_forward_out
    by (simp add: OurLinear_f_forward_def Let_def)
  show ?thesis
    unfolding h out by simp
qed

text \<open>
  C2, amended. For a linear layer whose cached input is \<open>x\<close>, \<open>backward grad_out lr\<close>
  returns \<open>grad_out * weight\<close> with the weight as it was before the call, and leaves the
  layer with weight \<open>weight - lr * (grad_out * x)\<close> and bias \<open>bias - lr * grad_out\<close>,
  every operation being the rounded one. With weight 0.5, bias -0.4, input 1.0,
  learning rate 0.1 and \<open>grad_out\<close> 1.0, forward returns the double
  \<open>7205759403792792 / 2 ^ 56\<close>, which is within \<open>2 ^ -55\<close> of 0.1; backward returns 0.5,
  and afterwards the weight is the double of 0.4 and the bias is -0.5.
\<close>

theorem OurLinear_f_backward_pre_update_weight:
  "OurLinear_f_backward (self\<lparr>cache_x_f := Some x\<rparr>) grad_out lr =
     (Inr (dmul grad_out (weight_f self)),
      self\<lparr>weight_f := dsub (weight_f self) (dmul lr (dmul grad_out x)),
           bias_f := dsub (bias_f self) (dmul lr grad_out),
           cache_x_f := Some x\<rparr>)
   \<and> (let l0 = \<lparr>weight_f = rd 0.5, bias_f = dneg (rd 0.4), cache_x_f = c\<rparr>;
          (out, l1) = OurLinear_f_forward l0 (rd 1.0);
          (r, l2) = OurLinear_f_backward l1 (rd 1.0) (rd 0.1)
      in out = Fin (7205759403792792 / 2 ^ 56)
         \<and> \<bar>7205759403792792 / 2 ^ 56 - 0.1\<bar> < (1 / 2 ^ 55 :: real)
         \<and> r = Inr (rd 0.5) \<and> weight_f l2 = rd 0.4 \<and> bias_f l2 = dneg (rd 0.5))"
proof -
  have h: "rd 0.5 = Fin (1 / 2)" "rd 0.4 = Fin (7205759403792794 / 2 ^ 54)"
      "rd 1.0 = Fin 1" "rd 0.1 = Fin (7205759403792794 / 2 ^ 56)"
    using rd_half rd_two_fifths rd_1 rd_tenth by simp_all
  have general: "OurLinear_f_backward (self\<lparr>cache_x_f := Some x\<rparr>) grad_out lr =
     (Inr (dmul grad_out (weight_f self)),
      self\<lparr>weight_f := dsub (weight_f self) (dmul lr (dmul grad_out x)),
           bias_f := dsub (bias_f self) (dmul lr grad_out),
           cache_x_f := Some x\<rparr>)"
    by (simp add: OurLinear_f_backward_def Let_def)
  have near: "\<bar>7205759403792792 / 2 ^ 56 - 0.1\<bar> < (1 / 2 ^ 55 :: real)"
    by (simp add: abs_less_iff)
  have concrete: "(let l0 = \<lparr>weight_f = Fin (1 / 2), bias_f = dneg (Fin (7205759403792794 / 2 ^ 54)),
            cache_x_f = c\<rparr>;
          (out, l1) = OurLinear_f_forward l0 (Fin 1);
          (r, l2) = OurLinear_f_backward l1 (Fin 1) (Fin (7205759403792794 / 2 ^ 56))
      in out = Fin (7205759403792792 / 2 ^ 56)
         \<and> r = Inr (Fin (1 / 2)) \<and> weight_f l2 = Fin (7205759403792794 / 2 ^ 54)
         \<and> bias_f l2 = dneg (Fin (1 / 2)))"
    using rd_half rd_forward_out rd_1 rd_lr_exact rd_new_weight rd_new_bias
    by (simp add: OurLinear_f_forward_def OurLinear_f_backward_def Let_def dsub_def)
  show ?thesis
    unfolding h using general near concrete by (simp add: Let_def)
qed

section \<open>Loss in double precision\<close>





section \<open>Tanh layer in double precision\<close>

text \<open>
  A double multiplied by a factor between 0 and 1 and rounded is no larger in absolute
  value than the double and has no opposite sign.
\<close>

lemma round_real_shrink:
  assumes g: "round_real g = g" and c: "0 \<le> c" "c \<le> 1"
  shows "\<bar>round_real (g * c)\<bar> \<le> \<bar>g\<bar>" and "0 \<le> g * round_real (g * c)"
proof -
  have both: "\<bar>round_real (g * c)\<bar> \<le> \<bar>g\<bar> \<and> 0 \<le> g * round_real (g * c)"
  proof (cases "0 \<le> g")
    case True
    have "0 \<le> g * c"
      using True c(1) by simp
    then have lo: "0 \<le> round_real (g * c)"
      by (rule round_real_nonneg)
    have "g * c \<le> g"
      using True c(2) by (simp add: mult_left_le)
    then have "round_real (g * c) \<le> round_real g"
      by (rule round_real_mono)
    then have hi: "round_real (g * c) \<le> g"
      using g by simp
    show ?thesis
      using True lo hi by simp
  next
    case False
    then have neg: "g \<le> 0" by simp
    have "g * c \<le> 0"
      using neg c(1) by (simp add: mult_le_0_iff)
    then have hi: "round_real (g * c) \<le> 0"
      by (rule round_real_nonpos)
    have "g * 1 \<le> g * c"
      using neg c(2) by (intro mult_left_mono_neg) simp_all
    then have "round_real g \<le> round_real (g * c)"
      using round_real_mono [of g "g * c"] by simp
    then have lo: "g \<le> round_real (g * c)"
      using g by simp
    have "0 \<le> g * round_real (g * c)"
      using neg hi by (simp add: zero_le_mult_iff)
    then show ?thesis
      using neg lo hi by simp
  qed
  from both show "\<bar>round_real (g * c)\<bar> \<le> \<bar>g\<bar>" ..
  from both show "0 \<le> g * round_real (g * c)" ..
qed

text \<open>
  \<open>tanh 40\<close> is closer to 1 than to the double below 1, so it rounds to 1.
\<close>

lemma exp_80_lower: "2 ^ 80 \<le> exp (80::real)"
proof -
  have "exp (of_nat 80 * (1::real)) = exp 1 ^ 80"
    by (rule exp_of_nat_mult)
  moreover have "(2::real) ^ 80 \<le> exp 1 ^ 80"
    using exp_ge_add_one_self [of "1::real"] by (intro power_mono) simp_all
  ultimately show ?thesis by simp
qed

lemma tanh_40_lower: "1 - 1 / 2 ^ 79 \<le> tanh (40::real)"
proof -
  define u :: real where "u = exp (- 80)"
  have upos: "0 < u"
    unfolding u_def by simp
  have "u = 1 / exp 80"
    unfolding u_def by (simp add: exp_minus inverse_eq_divide)
  also have "\<dots> \<le> 1 / 2 ^ 80"
    using exp_80_lower by (intro divide_left_mono) simp_all
  finally have ule: "u \<le> 1 / 2 ^ 80" .
  have th: "tanh (40::real) = (1 - u) / (1 + u)"
    unfolding u_def using tanh_real_altdef [of 40] by simp
  have "(1 - 2 * u) * (1 + u) \<le> 1 - u"
    using upos by (simp add: algebra_simps)
  then have "1 - 2 * u \<le> (1 - u) / (1 + u)"
    using upos by (simp add: pos_le_divide_eq)
  moreover have "1 - 1 / 2 ^ 79 \<le> 1 - 2 * u"
    using ule by simp
  ultimately show ?thesis
    unfolding th by linarith
qed

lemma rd_tanh_40: "rd (tanh 40) = Fin 1"
proof -
  have lo: "1 - 1 / 2 ^ 79 \<le> tanh (40::real)" and hi: "tanh (40::real) < 1"
    using tanh_40_lower tanh_real_lt_1 [of 40] by simp_all
  have q: "(2::real) powr of_int (- 1 - 52) = 1 / 2 ^ 53"
    by (simp add: powr_neg_numeral)
  have "\<bar>tanh (40::real) * 2 ^ 53 - of_int (2 ^ 53)\<bar> < 1 / 2"
  proof -
    have "(1 - 1 / 2 ^ 79) * 2 ^ 53 \<le> tanh (40::real) * 2 ^ 53"
      using lo by (intro mult_right_mono) simp_all
    moreover have "tanh (40::real) * 2 ^ 53 < 1 * 2 ^ 53"
      using hi by (intro mult_strict_right_mono) simp_all
    ultimately show ?thesis
      by (simp add: abs_less_iff algebra_simps)
  qed
  then have "round_even (tanh 40 * 2 ^ 53) = 2 ^ 53"
    by (rule round_even_near)
  then have re: "round_even (tanh 40 / 2 powr of_int (- 1 - 52)) = 2 ^ 53"
    unfolding q by simp
  have "round_real (tanh 40) = of_int (2 ^ 53) * 2 powr of_int (- 1 - 52)"
  proof (rule round_real_eval [OF _ _ _ re])
    show "2 powr of_int (- 1) \<le> tanh (40::real)"
      using lo by (simp add: powr_neg_numeral powr_minus)
    show "tanh (40::real) < 2 powr of_int (- 1 + 1)"
      using hi by simp
    show "- 1022 \<le> (- 1 :: int)"
      by simp
  qed
  then have "round_real (tanh 40) = 1"
    unfolding q by simp
  then show ?thesis
    using rd_unit [of "tanh 40"] lo hi by simp
qed

text \<open>
  C10, as stated, at the input 40.0: the claim has the cached output strictly below 1
  and \<open>1 - y\<^sup>2\<close> strictly positive. \<^verbatim>\<open>np.tanh(40.0)\<close> is the double 1, and backward on
  \<open>grad_out\<close> 1.0 returns 0.
\<close>

theorem OurTanh_f_saturates:
  "OurTanh_f_forward OurTanh_f_init (Fin 40) = (Fin 1, \<lparr>cache_y_f = Some (Fin 1)\<rparr>)
   \<and> OurTanh_f_backward \<lparr>cache_y_f = Some (Fin 1)\<rparr> (Fin 1) (Fin 1)
       = (Inr (Fin 0), \<lparr>cache_y_f = Some (Fin 1)\<rparr>)"
  by (simp add: OurTanh_f_forward_def OurTanh_f_init_def OurTanh_f_backward_def Let_def
      rd_tanh_40 dsub_def rd_1 rd_0)

text \<open>
  C10, amended. After the tanh layer's forward on any finite input the cached output
  \<open>y\<close> lies between -1 and 1, both included, so \<open>0 \<le> 1 - y\<^sup>2 \<le> 1\<close>, for the exact
  difference and for the double that backward computes; for every finite double
  \<open>grad_out\<close> the gradient that backward returns is no larger in absolute value than
  \<open>grad_out\<close> and never of the opposite sign.
\<close>

theorem OurTanh_f_gradient_bounded:
  assumes "rd g = Fin g"
  shows "\<exists>y c grad_in.
     OurTanh_f_forward self (Fin x) = (Fin y, self\<lparr>cache_y_f := Some (Fin y)\<rparr>)
     \<and> - 1 \<le> y \<and> y \<le> 1 \<and> 0 \<le> 1 - y\<^sup>2 \<and> 1 - y\<^sup>2 \<le> 1
     \<and> dsub (Fin 1) (np_pow2 (Fin y)) = Fin c \<and> 0 \<le> c \<and> c \<le> 1
     \<and> fst (OurTanh_f_backward (snd (OurTanh_f_forward self (Fin x))) (Fin g) lr)
         = Inr (Fin grad_in)
     \<and> \<bar>grad_in\<bar> \<le> \<bar>g\<bar> \<and> 0 \<le> g * grad_in"
proof -
  define y where "y = round_real (tanh x)"
  define s where "s = round_real (y * y)"
  define c where "c = round_real (1 - s)"
  define grad_in where "grad_in = round_real (g * c)"
  have t: "- 1 \<le> tanh x" "tanh x \<le> 1"
    using tanh_real_gt_neg1 [of x] tanh_real_lt_1 [of x] by simp_all
  have y: "- 1 \<le> y" "y \<le> 1"
    unfolding y_def using round_real_unit [OF t] by simp_all
  have ry: "rd (tanh x) = Fin y"
    unfolding y_def using t by (rule rd_unit)
  have "\<bar>y\<bar> \<le> 1"
    using y by (simp add: abs_le_iff)
  then have "\<bar>y\<bar> * \<bar>y\<bar> \<le> 1 * 1"
    by (intro mult_mono) simp_all
  then have yy: "0 \<le> y * y" "y * y \<le> 1"
    by simp_all
  have yym: "- 1 \<le> y * y"
    by (rule order_trans [of _ 0]) simp_all
  have s: "0 \<le> s" "s \<le> 1"
    unfolding s_def using round_real_nonneg [OF yy(1)] round_real_unit(2) [OF yym yy(2)]
    by simp_all
  have rs: "rd (y * y) = Fin s"
    unfolding s_def using yym yy(2) by (rule rd_unit)
  have c: "0 \<le> c" "c \<le> 1"
    unfolding c_def using round_real_nonneg [of "1 - s"] round_real_unit(2) [of "1 - s"] s
    by simp_all
  have rc: "rd (1 - s) = Fin c"
    unfolding c_def using s by (intro rd_unit) simp_all
  have gd: "round_real g = g" "\<bar>g\<bar> \<le> DBL_MAX"
    using rd_double [OF assms] by simp_all
  have gi: "\<bar>grad_in\<bar> \<le> \<bar>g\<bar>" "0 \<le> g * grad_in"
    unfolding grad_in_def using round_real_shrink [OF gd(1) c] by simp_all
  have rg: "rd (g * c) = Fin grad_in"
    unfolding grad_in_def using gi(1) gd(2) by (intro rd_finite) (simp add: grad_in_def)
  have sq: "0 \<le> 1 - y\<^sup>2" "1 - y\<^sup>2 \<le> 1"
    using yy by (simp_all add: power2_eq_square)
  have fw: "OurTanh_f_forward self (Fin x) = (Fin y, self\<lparr>cache_y_f := Some (Fin y)\<rparr>)"
    by (simp add: OurTanh_f_forward_def Let_def ry)
  have sub: "dsub (Fin 1) (np_pow2 (Fin y)) = Fin c"
    by (simp add: dsub_def rs rc)
  have bw: "fst (OurTanh_f_backward (snd (OurTanh_f_forward self (Fin x))) (Fin g) lr)
      = Inr (Fin grad_in)"
    unfolding fw by (simp add: OurTanh_f_backward_def Let_def rs dsub_def rc rg)
  show ?thesis
    using fw y sq sub c bw gi by blast
qed

theorem OurTanh_f_gradient_bounded_witness:
  "rd 1 = Fin 1
   \<and> (\<exists>y c grad_in.
     OurTanh_f_forward OurTanh_f_init (Fin 40)
       = (Fin y, OurTanh_f_init\<lparr>cache_y_f := Some (Fin y)\<rparr>)
     \<and> - 1 \<le> y \<and> y \<le> 1 \<and> 0 \<le> 1 - y\<^sup>2 \<and> 1 - y\<^sup>2 \<le> 1
     \<and> dsub (Fin 1) (np_pow2 (Fin y)) = Fin c \<and> 0 \<le> c \<and> c \<le> 1
     \<and> fst (OurTanh_f_backward (snd (OurTanh_f_forward OurTanh_f_init (Fin 40))) (Fin 1) (Fin 1))
         = Inr (Fin grad_in)
     \<and> \<bar>grad_in\<bar> \<le> \<bar>1\<bar> \<and> 0 \<le> 1 * grad_in)"
  using OurTanh_f_gradient_bounded [OF rd_1, of OurTanh_f_init 40 "Fin 1"] rd_1
  by simp

end
